theory Spec2Isabelle
  imports Main "HOL-Library.Word" "HOL-Library.Signed_Division"
begin

section \<open>ZoomDefinitions.h\<close>

text \<open>
  The enum class \<open>ZoomLevel\<close>, with its enumerators in declaration order. The cast
  \<open>(int)level\<close> used by \<open>printStatus\<close> yields the position of the enumerator.
\<close>

datatype ZoomLevel = LEVEL_1_ROOT | LEVEL_2_SECTOR | LEVEL_3_FOCUS | LEVEL_3A_PICKER

text \<open>A C++ \<open>int\<close>: 32 bits, two's complement, read as a signed value by \<open>sint\<close>.\<close>

type_synonym cint = "32 word"

fun ZoomLevel_to_int :: "ZoomLevel \<Rightarrow> cint" where
  "ZoomLevel_to_int LEVEL_1_ROOT = 0"
| "ZoomLevel_to_int LEVEL_2_SECTOR = 1"
| "ZoomLevel_to_int LEVEL_3_FOCUS = 2"
| "ZoomLevel_to_int LEVEL_3A_PICKER = 3"

text \<open>
  The \<open>default\<close> branch of \<open>zoomLevelToString\<close> (\<open>"Unknown Level"\<close>) is taken by
  none of the four enumerators, and the program stores no other value in a \<open>ZoomLevel\<close>.
\<close>

fun zoomLevelToString :: "ZoomLevel \<Rightarrow> string" where
  "zoomLevelToString LEVEL_1_ROOT = ''Level 1: Root (Overview)''"
| "zoomLevelToString LEVEL_2_SECTOR = ''Level 2: Sector (Group)''"
| "zoomLevelToString LEVEL_3_FOCUS = ''Level 3: Focus (App)''"
| "zoomLevelToString LEVEL_3A_PICKER = ''Level 3a: Picker (Windows)''"

section \<open>SpatialNavigator.h\<close>

text \<open>The private data members of class \<open>SpatialNavigator\<close>.\<close>

record SpatialNavigator =
  m_currentLevel :: ZoomLevel
  m_activeSectorIndex :: cint
  m_activeAppIndex :: cint
  m_activeWindowIndex :: cint

text \<open>
  What a member function writes to \<open>std::cout\<close>: the operands of its \<open>operator<<\<close>
  chain, in order. An \<open>int\<close> operand is kept as a number, not formatted.
\<close>

datatype cout_item = Str string | Num cint | Endl

section \<open>SpatialNavigator.cpp\<close>

text \<open>The value \<open>-1\<close> that the constructor and the resets of \<open>zoomOut\<close> store.\<close>

definition unset :: cint where
  "unset = - 1"

definition is_set :: "cint \<Rightarrow> bool" where
  "is_set i \<longleftrightarrow> i \<noteq> unset"

text \<open>
  The built-in \<open>%\<close> on \<open>int\<close>: the remainder of the division that truncates towards
  zero, so its sign follows the dividend. (The only divisor in this program is \<open>2\<close>.)
\<close>

definition c_rem :: "cint \<Rightarrow> cint \<Rightarrow> cint" where
  "c_rem a b = word_of_int (sint a smod sint b)"

definition SpatialNavigator_ctor :: SpatialNavigator where
  "SpatialNavigator_ctor =
     \<lparr> m_currentLevel = LEVEL_1_ROOT,
       m_activeSectorIndex = - 1,
       m_activeAppIndex = - 1,
       m_activeWindowIndex = - 1 \<rparr>"

definition getCurrentLevel :: "SpatialNavigator \<Rightarrow> ZoomLevel" where
  "getCurrentLevel nav = m_currentLevel nav"

definition printStatus :: "SpatialNavigator \<Rightarrow> cout_item list" where
  "printStatus nav =
     [Str ''Current State: '', Num (ZoomLevel_to_int (m_currentLevel nav)), Endl]"

text \<open>
  Each member function takes the object and returns the object after the call together
  with the output of the call.
\<close>

definition zoomIn :: "cint \<Rightarrow> SpatialNavigator \<Rightarrow> SpatialNavigator \<times> cout_item list" where
  "zoomIn targetIndex nav =
     (let (nav', out) =
        (if m_currentLevel nav = LEVEL_1_ROOT then
           (nav\<lparr> m_activeSectorIndex := targetIndex, m_currentLevel := LEVEL_2_SECTOR \<rparr>,
            [Str ''[Zoom In] Entering Sector '', Num targetIndex, Endl])
         else if m_currentLevel nav = LEVEL_2_SECTOR then
           (nav\<lparr> m_activeAppIndex := targetIndex, m_currentLevel := LEVEL_3_FOCUS \<rparr>,
            [Str ''[Zoom In] Focusing on App '', Num targetIndex,
             Str '' (Morphing SSD Frame...)'', Endl])
         else if m_currentLevel nav = LEVEL_3A_PICKER then
           (nav\<lparr> m_activeWindowIndex := targetIndex, m_currentLevel := LEVEL_3_FOCUS \<rparr>,
            [Str ''[Zoom In] Selected Window '', Num targetIndex, Str '' from Picker.'', Endl])
         else
           (nav, [Str ''[Navigate] Already at deepest level (Level 3 Focus).'', Endl]))
      in (nav', out @ printStatus nav'))"

definition zoomOut :: "SpatialNavigator \<Rightarrow> SpatialNavigator \<times> cout_item list" where
  "zoomOut nav =
     (let (nav', out) =
        (if m_currentLevel nav = LEVEL_3_FOCUS then
           (let hasMultipleWindows = (c_rem (m_activeAppIndex nav) 2 = 0) in
            if hasMultipleWindows then
              (nav\<lparr> m_currentLevel := LEVEL_3A_PICKER \<rparr>,
               [Str ''[Zoom Out] Multiple windows detected -> Entering Window Picker (Level 3a).'',
                Endl])
            else
              (nav\<lparr> m_currentLevel := LEVEL_2_SECTOR, m_activeAppIndex := - 1 \<rparr>,
               [Str ''[Zoom Out] Returning to Sector View (Level 2).'', Endl]))
         else if m_currentLevel nav = LEVEL_3A_PICKER then
           (nav\<lparr> m_currentLevel := LEVEL_2_SECTOR, m_activeAppIndex := - 1 \<rparr>,
            [Str ''[Zoom Out] Returning to Sector View (Level 2) from Picker.'', Endl])
         else if m_currentLevel nav = LEVEL_2_SECTOR then
           (nav\<lparr> m_currentLevel := LEVEL_1_ROOT, m_activeSectorIndex := - 1 \<rparr>,
            [Str ''[Zoom Out] Returning to Root Overview (Level 1).'', Endl])
         else
           (nav, [Str ''[Navigate] Already at top level (Level 1 Root).'', Endl]))
      in (nav', out @ printStatus nav'))"

definition splitView :: "SpatialNavigator \<Rightarrow> SpatialNavigator \<times> cout_item list" where
  "splitView nav =
     (if m_currentLevel nav = LEVEL_3_FOCUS then
        (nav,
         [Str ''[Split] Splitting Viewport...'', Endl,
          Str ''  -> Left Pane: Retains App Focus (Level 3)'', Endl,
          Str ''  -> Right Pane: Reverts to Level 2 (Sector Selection)'', Endl])
      else
        (nav, [Str ''[Split] Can only split from a focused app (Level 3).'', Endl]))"

section \<open>Sequences of calls\<close>

text \<open>
  A caller can invoke the three mutators in any order with any \<open>int\<close> argument. A
  call sequence is run from left to right on the object; \<open>run\<close> keeps the object and
  \<open>run_cout\<close> the accumulated output.
\<close>

datatype call = ZoomIn cint | ZoomOut | SplitView

fun invoke :: "call \<Rightarrow> SpatialNavigator \<Rightarrow> SpatialNavigator \<times> cout_item list" where
  "invoke (ZoomIn targetIndex) nav = zoomIn targetIndex nav"
| "invoke ZoomOut nav = zoomOut nav"
| "invoke SplitView nav = splitView nav"

fun run :: "call list \<Rightarrow> SpatialNavigator \<Rightarrow> SpatialNavigator" where
  "run [] nav = nav"
| "run (c # cs) nav = run cs (fst (invoke c nav))"

fun run_cout :: "call list \<Rightarrow> SpatialNavigator \<Rightarrow> cout_item list" where
  "run_cout [] nav = []"
| "run_cout (c # cs) nav = snd (invoke c nav) @ run_cout cs (fst (invoke c nav))"

section \<open>Properties named by the specification\<close>

text \<open>
  The data-model invariant as the specification words it: the sector index is set
  exactly at Sector, Focus and Picker, the app index exactly at Focus and Picker.
\<close>

definition index_level_invariant :: "SpatialNavigator \<Rightarrow> bool" where
  "index_level_invariant nav \<longleftrightarrow>
     (is_set (m_activeSectorIndex nav) \<longleftrightarrow>
        m_currentLevel nav \<in> {LEVEL_2_SECTOR, LEVEL_3_FOCUS, LEVEL_3A_PICKER}) \<and>
     (is_set (m_activeAppIndex nav) \<longleftrightarrow>
        m_currentLevel nav \<in> {LEVEL_3_FOCUS, LEVEL_3A_PICKER})"

text \<open>The depth order Root < Sector < Picker < Focus on levels.\<close>

fun depth :: "ZoomLevel \<Rightarrow> nat" where
  "depth LEVEL_1_ROOT = 0"
| "depth LEVEL_2_SECTOR = 1"
| "depth LEVEL_3A_PICKER = 2"
| "depth LEVEL_3_FOCUS = 3"

text \<open>
  The half of that invariant that reads from the indices to the level: at Root the
  sector index is unset, and at Root and Sector the app index is unset.
\<close>

definition set_index_has_level :: "SpatialNavigator \<Rightarrow> bool" where
  "set_index_has_level nav \<longleftrightarrow>
     (m_currentLevel nav = LEVEL_1_ROOT \<longrightarrow> m_activeSectorIndex nav = unset) \<and>
     (m_currentLevel nav \<in> {LEVEL_1_ROOT, LEVEL_2_SECTOR} \<longrightarrow> m_activeAppIndex nav = unset)"

text \<open>At Picker the test of \<open>zoomOut\<close> for multiple windows holds of the app index.\<close>

definition picker_app_even :: "SpatialNavigator \<Rightarrow> bool" where
  "picker_app_even nav \<longleftrightarrow>
     (m_currentLevel nav = LEVEL_3A_PICKER \<longrightarrow> c_rem (m_activeAppIndex nav) 2 = 0)"

section \<open>Basic facts\<close>

text \<open>The truncating remainder by \<open>2\<close> is \<open>-1\<close>, \<open>0\<close> or \<open>1\<close>, and \<open>0\<close> exactly on even values.\<close>

lemma smod_2_cases: "(k::int) smod 2 = 0 \<or> k smod 2 = 1 \<or> k smod 2 = - 1"
  by (simp add: smod_int_alt_def sgn_if) presburger

lemma smod_2_eq_0_iff: "(k::int) smod 2 = 0 \<longleftrightarrow> even k"
  by (simp add: smod_int_alt_def sgn_if) presburger

lemma c_rem_2_eq_0_iff: "c_rem a 2 = 0 \<longleftrightarrow> even (sint a)"
proof -
  have "c_rem a 2 = 0 \<longleftrightarrow> sint a smod 2 = 0"
    using smod_2_cases [of "sint a"] by (auto simp: c_rem_def)
  then show ?thesis
    by (simp add: smod_2_eq_0_iff)
qed

text \<open>The object after each call, by the level before the call.\<close>

lemma fst_zoomIn:
  "fst (zoomIn targetIndex nav) =
     (case m_currentLevel nav of
        LEVEL_1_ROOT \<Rightarrow>
          nav\<lparr> m_activeSectorIndex := targetIndex, m_currentLevel := LEVEL_2_SECTOR \<rparr>
      | LEVEL_2_SECTOR \<Rightarrow>
          nav\<lparr> m_activeAppIndex := targetIndex, m_currentLevel := LEVEL_3_FOCUS \<rparr>
      | LEVEL_3A_PICKER \<Rightarrow>
          nav\<lparr> m_activeWindowIndex := targetIndex, m_currentLevel := LEVEL_3_FOCUS \<rparr>
      | LEVEL_3_FOCUS \<Rightarrow> nav)"
  by (simp add: zoomIn_def split: ZoomLevel.split)

lemma fst_zoomOut:
  "fst (zoomOut nav) =
     (case m_currentLevel nav of
        LEVEL_3_FOCUS \<Rightarrow>
          if c_rem (m_activeAppIndex nav) 2 = 0
          then nav\<lparr> m_currentLevel := LEVEL_3A_PICKER \<rparr>
          else nav\<lparr> m_currentLevel := LEVEL_2_SECTOR, m_activeAppIndex := unset \<rparr>
      | LEVEL_3A_PICKER \<Rightarrow> nav\<lparr> m_currentLevel := LEVEL_2_SECTOR, m_activeAppIndex := unset \<rparr>
      | LEVEL_2_SECTOR \<Rightarrow> nav\<lparr> m_currentLevel := LEVEL_1_ROOT, m_activeSectorIndex := unset \<rparr>
      | LEVEL_1_ROOT \<Rightarrow> nav)"
  by (simp add: zoomOut_def unset_def split: ZoomLevel.split)

lemma fst_splitView: "fst (splitView nav) = nav"
  by (simp add: splitView_def)

lemma fst_invoke:
  "fst (invoke c nav) =
     (case c of ZoomIn t \<Rightarrow> fst (zoomIn t nav) | ZoomOut \<Rightarrow> fst (zoomOut nav) | SplitView \<Rightarrow> nav)"
  by (cases c) (simp_all add: fst_splitView)

text \<open>No branch of \<open>zoomOut\<close> or \<open>splitView\<close> assigns \<open>m_activeWindowIndex\<close>.\<close>

lemma zoomOut_keeps_window:
  "m_activeWindowIndex (fst (zoomOut nav)) = m_activeWindowIndex nav"
  by (simp add: fst_zoomOut split: ZoomLevel.split)

text \<open>The demonstration driver of \<open>main.cpp\<close> ends at Sector, since app \<open>1\<close> is odd.\<close>

lemma main_demo:
  "run [ZoomIn 0, ZoomIn 1, SplitView, ZoomOut] SpatialNavigator_ctor =
     \<lparr> m_currentLevel = LEVEL_2_SECTOR, m_activeSectorIndex = 0,
       m_activeAppIndex = - 1, m_activeWindowIndex = - 1 \<rparr>"
  by (simp add: SpatialNavigator_ctor_def fst_zoomIn fst_zoomOut fst_splitView
      c_rem_2_eq_0_iff unset_def)

section \<open>Invariants of call sequences\<close>

text \<open>
  An index that differs from \<open>-1\<close> belongs to a level that carries it; this half
  of the data-model invariant survives every call with every argument.
\<close>

lemma set_index_has_level_invoke:
  "set_index_has_level nav \<Longrightarrow> set_index_has_level (fst (invoke c nav))"
  by (cases c; cases "m_currentLevel nav")
    (simp_all add: set_index_has_level_def fst_zoomIn fst_zoomOut fst_splitView)

lemma set_index_has_level_run:
  "set_index_has_level nav \<Longrightarrow> set_index_has_level (run cs nav)"
  by (induction cs arbitrary: nav) (simp_all add: set_index_has_level_invoke)

lemma set_index_has_level_ctor: "set_index_has_level SpatialNavigator_ctor"
  by (simp add: set_index_has_level_def SpatialNavigator_ctor_def unset_def)

text \<open>
  The full invariant survives a call unless the call is \<open>zoomIn(-1)\<close>, whose argument
  is the value that stands for an unset index.
\<close>

lemma index_level_invariant_invoke:
  assumes "index_level_invariant nav" and "c \<noteq> ZoomIn (- 1)"
  shows "index_level_invariant (fst (invoke c nav))"
proof (cases c)
  case (ZoomIn t)
  with assms(2) have "t \<noteq> - 1" by simp
  with assms(1) ZoomIn show ?thesis
    by (cases "m_currentLevel nav")
      (simp_all add: index_level_invariant_def is_set_def unset_def fst_zoomIn)
next
  case ZoomOut
  with assms(1) show ?thesis
    by (cases "m_currentLevel nav")
      (simp_all add: index_level_invariant_def is_set_def fst_zoomOut)
next
  case SplitView
  with assms(1) show ?thesis
    by (simp add: fst_splitView)
qed

lemma index_level_invariant_run:
  "index_level_invariant nav \<Longrightarrow> ZoomIn (- 1) \<notin> set cs \<Longrightarrow>
   index_level_invariant (run cs nav)"
proof (induction cs arbitrary: nav)
  case Nil
  then show ?case by simp
next
  case (Cons c cs)
  from Cons.prems have "index_level_invariant (fst (invoke c nav))"
    by (intro index_level_invariant_invoke) auto
  with Cons.prems show ?case
    by (simp add: Cons.IH)
qed

lemma index_level_invariant_ctor: "index_level_invariant SpatialNavigator_ctor"
  by (simp add: index_level_invariant_def SpatialNavigator_ctor_def is_set_def unset_def)

text \<open>No call enters Picker except \<open>zoomOut\<close> at Focus with an even app index.\<close>

lemma picker_app_even_invoke:
  "picker_app_even nav \<Longrightarrow> picker_app_even (fst (invoke c nav))"
  by (cases c; cases "m_currentLevel nav")
    (simp_all add: picker_app_even_def fst_zoomIn fst_zoomOut fst_splitView)

lemma picker_app_even_run: "picker_app_even nav \<Longrightarrow> picker_app_even (run cs nav)"
  by (induction cs arbitrary: nav) (simp_all add: picker_app_even_invoke)

lemma picker_app_even_ctor: "picker_app_even SpatialNavigator_ctor"
  by (simp add: picker_app_even_def SpatialNavigator_ctor_def)

section \<open>The claims\<close>

text \<open>
  C1. Claimed: in every state reached from the freshly constructed navigator by any
  sequence of \<open>zoomIn\<close>, \<open>zoomOut\<close> and \<open>splitView\<close> calls with arbitrary integer
  arguments, the sector index is set iff the level is Sector, Focus or Picker, and the
  app index is set iff the level is Focus or Picker. The call \<open>zoomIn(-1)\<close> on the
  fresh navigator refutes it: the level becomes Sector while the stored sector index is
  \<open>-1\<close>, the value that means unset.
\<close>

theorem C1_counterexample_zoomIn_minus_one:
  "\<not> index_level_invariant (run [ZoomIn (- 1)] SpatialNavigator_ctor)"
  by (simp add: index_level_invariant_def SpatialNavigator_ctor_def fst_zoomIn
      is_set_def unset_def)

text \<open>
  C1, amended. For every call sequence with arbitrary integer arguments, a set sector
  index implies that the level is Sector, Focus or Picker, and a set app index implies
  that the level is Focus or Picker. When no \<open>zoomIn\<close> argument equals \<open>-1\<close>, the
  converse implications hold too, which is the invariant as the specification states it.
\<close>

theorem C1_index_level_invariant_amended:
  "(is_set (m_activeSectorIndex (run cs SpatialNavigator_ctor)) \<longrightarrow>
      m_currentLevel (run cs SpatialNavigator_ctor)
        \<in> {LEVEL_2_SECTOR, LEVEL_3_FOCUS, LEVEL_3A_PICKER}) \<and>
   (is_set (m_activeAppIndex (run cs SpatialNavigator_ctor)) \<longrightarrow>
      m_currentLevel (run cs SpatialNavigator_ctor) \<in> {LEVEL_3_FOCUS, LEVEL_3A_PICKER}) \<and>
   (ZoomIn (- 1) \<notin> set cs \<longrightarrow> index_level_invariant (run cs SpatialNavigator_ctor))"
proof -
  let ?nav = "run cs SpatialNavigator_ctor"
  have "set_index_has_level ?nav"
    by (rule set_index_has_level_run) (rule set_index_has_level_ctor)
  then have half:
    "is_set (m_activeSectorIndex ?nav) \<longrightarrow>
       m_currentLevel ?nav \<in> {LEVEL_2_SECTOR, LEVEL_3_FOCUS, LEVEL_3A_PICKER}"
    "is_set (m_activeAppIndex ?nav) \<longrightarrow>
       m_currentLevel ?nav \<in> {LEVEL_3_FOCUS, LEVEL_3A_PICKER}"
    by (cases "m_currentLevel ?nav"; simp add: set_index_has_level_def is_set_def)+
  have "ZoomIn (- 1) \<notin> set cs \<longrightarrow> index_level_invariant ?nav"
    using index_level_invariant_run [OF index_level_invariant_ctor] by blast
  with half show ?thesis by blast
qed

theorem C1_index_level_invariant_amended_witness:
  "ZoomIn (- 1) \<notin> set [ZoomIn 3, ZoomIn 4, ZoomOut] \<and>
   is_set (m_activeSectorIndex (run [ZoomIn 3, ZoomIn 4, ZoomOut] SpatialNavigator_ctor)) \<and>
   is_set (m_activeAppIndex (run [ZoomIn 3, ZoomIn 4, ZoomOut] SpatialNavigator_ctor)) \<and>
   m_currentLevel (run [ZoomIn 3, ZoomIn 4, ZoomOut] SpatialNavigator_ctor) = LEVEL_3A_PICKER \<and>
   index_level_invariant (run [ZoomIn 3, ZoomIn 4, ZoomOut] SpatialNavigator_ctor)"
proof -
  have run_eq: "run [ZoomIn 3, ZoomIn 4, ZoomOut] SpatialNavigator_ctor =
      \<lparr> m_currentLevel = LEVEL_3A_PICKER, m_activeSectorIndex = 3,
        m_activeAppIndex = 4, m_activeWindowIndex = - 1 \<rparr>"
    by (simp add: SpatialNavigator_ctor_def fst_zoomIn fst_zoomOut c_rem_2_eq_0_iff)
  have no_sentinel: "ZoomIn (- 1) \<notin> set [ZoomIn 3, ZoomIn 4, ZoomOut]"
    by simp
  from C1_index_level_invariant_amended [of "[ZoomIn 3, ZoomIn 4, ZoomOut]"] no_sentinel
  have "index_level_invariant (run [ZoomIn 3, ZoomIn 4, ZoomOut] SpatialNavigator_ctor)"
    by blast
  with no_sentinel show ?thesis
    by (simp add: run_eq is_set_def unset_def del: run.simps)
qed

text \<open>
  C2. Claimed: every index assigned by a zoom-in is cleared by the corresponding
  zoom-out; in particular, from a reachable Focus state whose window index is set,
  zooming out leaves the window index unset. The code resets the app index and the
  sector index on the way out, but no branch of \<open>zoomOut\<close> assigns
  \<open>m_activeWindowIndex\<close>: after \<open>zoomIn(0)\<close>, \<open>zoomIn(0)\<close>, \<open>zoomOut()\<close>, \<open>zoomIn(5)\<close>
  the navigator is at Focus with window index \<open>5\<close>, and the index is still \<open>5\<close> after
  one, two and three further \<open>zoomOut()\<close> calls, the last of which ends at Root.
\<close>

theorem C2_window_index_survives_zoomOut:
  "run [ZoomIn 0, ZoomIn 0, ZoomOut, ZoomIn 5] SpatialNavigator_ctor =
     \<lparr> m_currentLevel = LEVEL_3_FOCUS, m_activeSectorIndex = 0,
       m_activeAppIndex = 0, m_activeWindowIndex = 5 \<rparr> \<and>
   run [ZoomIn 0, ZoomIn 0, ZoomOut, ZoomIn 5, ZoomOut] SpatialNavigator_ctor =
     \<lparr> m_currentLevel = LEVEL_3A_PICKER, m_activeSectorIndex = 0,
       m_activeAppIndex = 0, m_activeWindowIndex = 5 \<rparr> \<and>
   run [ZoomIn 0, ZoomIn 0, ZoomOut, ZoomIn 5, ZoomOut, ZoomOut] SpatialNavigator_ctor =
     \<lparr> m_currentLevel = LEVEL_2_SECTOR, m_activeSectorIndex = 0,
       m_activeAppIndex = - 1, m_activeWindowIndex = 5 \<rparr> \<and>
   run [ZoomIn 0, ZoomIn 0, ZoomOut, ZoomIn 5, ZoomOut, ZoomOut, ZoomOut] SpatialNavigator_ctor =
     \<lparr> m_currentLevel = LEVEL_1_ROOT, m_activeSectorIndex = - 1,
       m_activeAppIndex = - 1, m_activeWindowIndex = 5 \<rparr> \<and>
   is_set (5 :: cint)"
  by (simp add: SpatialNavigator_ctor_def fst_zoomIn fst_zoomOut c_rem_2_eq_0_iff
      is_set_def unset_def)

text \<open>
  C3. At Focus, \<open>zoomOut\<close> goes to Picker and changes no index when the app index is
  even (the remainder \<open>m_activeAppIndex % 2\<close> is \<open>0\<close>), and otherwise goes to Sector
  and resets the app index to unset, changing nothing else.
\<close>

theorem C3_zoomOut_at_focus:
  assumes "m_currentLevel nav = LEVEL_3_FOCUS"
  shows "(c_rem (m_activeAppIndex nav) 2 = 0) = even (sint (m_activeAppIndex nav)) \<and>
         (even (sint (m_activeAppIndex nav)) \<longrightarrow>
            fst (zoomOut nav) = nav\<lparr> m_currentLevel := LEVEL_3A_PICKER \<rparr>) \<and>
         (odd (sint (m_activeAppIndex nav)) \<longrightarrow>
            fst (zoomOut nav) = nav\<lparr> m_currentLevel := LEVEL_2_SECTOR, m_activeAppIndex := unset \<rparr>)"
  using assms by (simp add: fst_zoomOut c_rem_2_eq_0_iff)

theorem C3_zoomOut_at_focus_witness:
  "m_currentLevel \<lparr> m_currentLevel = LEVEL_3_FOCUS, m_activeSectorIndex = 1,
       m_activeAppIndex = 4, m_activeWindowIndex = - 1 \<rparr> = LEVEL_3_FOCUS \<and>
   even (sint (4 :: cint)) \<and>
   fst (zoomOut \<lparr> m_currentLevel = LEVEL_3_FOCUS, m_activeSectorIndex = 1,
       m_activeAppIndex = 4, m_activeWindowIndex = - 1 \<rparr>) =
     \<lparr> m_currentLevel = LEVEL_3A_PICKER, m_activeSectorIndex = 1,
       m_activeAppIndex = 4, m_activeWindowIndex = - 1 \<rparr> \<and>
   m_currentLevel \<lparr> m_currentLevel = LEVEL_3_FOCUS, m_activeSectorIndex = 1,
       m_activeAppIndex = - 3, m_activeWindowIndex = 6 \<rparr> = LEVEL_3_FOCUS \<and>
   odd (sint (- 3 :: cint)) \<and>
   fst (zoomOut \<lparr> m_currentLevel = LEVEL_3_FOCUS, m_activeSectorIndex = 1,
       m_activeAppIndex = - 3, m_activeWindowIndex = 6 \<rparr>) =
     \<lparr> m_currentLevel = LEVEL_2_SECTOR, m_activeSectorIndex = 1,
       m_activeAppIndex = - 1, m_activeWindowIndex = 6 \<rparr>"
proof -
  let ?a = "\<lparr> m_currentLevel = LEVEL_3_FOCUS, m_activeSectorIndex = 1,
       m_activeAppIndex = 4, m_activeWindowIndex = - 1 \<rparr> :: SpatialNavigator"
  let ?b = "\<lparr> m_currentLevel = LEVEL_3_FOCUS, m_activeSectorIndex = 1,
       m_activeAppIndex = - 3, m_activeWindowIndex = 6 \<rparr> :: SpatialNavigator"
  have la: "m_currentLevel ?a = LEVEL_3_FOCUS" and lb: "m_currentLevel ?b = LEVEL_3_FOCUS"
    by simp_all
  have ea: "even (sint (4 :: cint))" and ob: "odd (sint (- 3 :: cint))"
    by simp_all
  from C3_zoomOut_at_focus [OF la] ea C3_zoomOut_at_focus [OF lb] ob show ?thesis
    by (simp add: unset_def)
qed

text \<open>
  C4. At Picker, \<open>zoomIn(w)\<close> goes to Focus and stores \<open>w\<close> as the window index,
  for every \<open>w\<close>; the sector index and the app index stay as they were.
\<close>

theorem C4_zoomIn_at_picker:
  assumes "m_currentLevel nav = LEVEL_3A_PICKER"
  shows "m_currentLevel (fst (zoomIn w nav)) = LEVEL_3_FOCUS \<and>
         m_activeWindowIndex (fst (zoomIn w nav)) = w \<and>
         m_activeSectorIndex (fst (zoomIn w nav)) = m_activeSectorIndex nav \<and>
         m_activeAppIndex (fst (zoomIn w nav)) = m_activeAppIndex nav"
  using assms by (simp add: fst_zoomIn)

theorem C4_zoomIn_at_picker_witness:
  "m_currentLevel \<lparr> m_currentLevel = LEVEL_3A_PICKER, m_activeSectorIndex = 2,
       m_activeAppIndex = 6, m_activeWindowIndex = - 1 \<rparr> = LEVEL_3A_PICKER \<and>
   fst (zoomIn 9 \<lparr> m_currentLevel = LEVEL_3A_PICKER, m_activeSectorIndex = 2,
       m_activeAppIndex = 6, m_activeWindowIndex = - 1 \<rparr>) =
     \<lparr> m_currentLevel = LEVEL_3_FOCUS, m_activeSectorIndex = 2,
       m_activeAppIndex = 6, m_activeWindowIndex = 9 \<rparr>"
proof -
  let ?p = "\<lparr> m_currentLevel = LEVEL_3A_PICKER, m_activeSectorIndex = 2,
       m_activeAppIndex = 6, m_activeWindowIndex = - 1 \<rparr> :: SpatialNavigator"
  have l: "m_currentLevel ?p = LEVEL_3A_PICKER"
    by simp
  from C4_zoomIn_at_picker [OF l, of 9] l show ?thesis
    by (cases "fst (zoomIn 9 ?p)") simp
qed

text \<open>
  C5. From any state at Root, \<open>zoomIn(s)\<close> followed by \<open>zoomOut()\<close> ends at Root
  with the sector index unset, for every \<open>s\<close>; the other two indices are untouched.
\<close>

theorem C5_zoomIn_zoomOut_at_root:
  assumes "m_currentLevel nav = LEVEL_1_ROOT"
  shows "m_currentLevel (fst (zoomOut (fst (zoomIn s nav)))) = LEVEL_1_ROOT \<and>
         \<not> is_set (m_activeSectorIndex (fst (zoomOut (fst (zoomIn s nav))))) \<and>
         fst (zoomOut (fst (zoomIn s nav))) = nav\<lparr> m_activeSectorIndex := unset \<rparr>"
  using assms by (simp add: fst_zoomIn fst_zoomOut is_set_def)

theorem C5_zoomIn_zoomOut_at_root_witness:
  "m_currentLevel SpatialNavigator_ctor = LEVEL_1_ROOT \<and>
   fst (zoomOut (fst (zoomIn 7 SpatialNavigator_ctor))) = SpatialNavigator_ctor"
proof -
  have l: "m_currentLevel SpatialNavigator_ctor = LEVEL_1_ROOT"
    by (simp add: SpatialNavigator_ctor_def)
  from C5_zoomIn_zoomOut_at_root [OF l, of 7] l show ?thesis
    by (simp add: SpatialNavigator_ctor_def unset_def)
qed

text \<open>
  C6. At Focus, \<open>zoomIn(x)\<close> leaves the level and all three indices as they were,
  for every \<open>x\<close>.
\<close>

theorem C6_zoomIn_at_focus:
  assumes "m_currentLevel nav = LEVEL_3_FOCUS"
  shows "fst (zoomIn x nav) = nav"
  using assms by (simp add: fst_zoomIn)

theorem C6_zoomIn_at_focus_witness:
  "m_currentLevel \<lparr> m_currentLevel = LEVEL_3_FOCUS, m_activeSectorIndex = 0,
       m_activeAppIndex = 1, m_activeWindowIndex = - 1 \<rparr> = LEVEL_3_FOCUS \<and>
   fst (zoomIn 8 \<lparr> m_currentLevel = LEVEL_3_FOCUS, m_activeSectorIndex = 0,
       m_activeAppIndex = 1, m_activeWindowIndex = - 1 \<rparr>) =
     \<lparr> m_currentLevel = LEVEL_3_FOCUS, m_activeSectorIndex = 0,
       m_activeAppIndex = 1, m_activeWindowIndex = - 1 \<rparr>"
proof -
  let ?f = "\<lparr> m_currentLevel = LEVEL_3_FOCUS, m_activeSectorIndex = 0,
       m_activeAppIndex = 1, m_activeWindowIndex = - 1 \<rparr> :: SpatialNavigator"
  have l: "m_currentLevel ?f = LEVEL_3_FOCUS"
    by simp
  from C6_zoomIn_at_focus [OF l, of 8] l show ?thesis
    by simp
qed

text \<open>C7. At Root, \<open>zoomOut()\<close> leaves the level and all three indices as they were.\<close>

theorem C7_zoomOut_at_root:
  assumes "m_currentLevel nav = LEVEL_1_ROOT"
  shows "fst (zoomOut nav) = nav"
  using assms by (simp add: fst_zoomOut)

theorem C7_zoomOut_at_root_witness:
  "m_currentLevel SpatialNavigator_ctor = LEVEL_1_ROOT \<and>
   fst (zoomOut SpatialNavigator_ctor) = SpatialNavigator_ctor"
proof -
  have l: "m_currentLevel SpatialNavigator_ctor = LEVEL_1_ROOT"
    by (simp add: SpatialNavigator_ctor_def)
  from C7_zoomOut_at_root [OF l] l show ?thesis
    by simp
qed

text \<open>
  C8. \<open>splitView()\<close> never changes the navigator: in every state, at Focus or not,
  the level and the three indices after the call are those before it.
\<close>

theorem C8_splitView_frame:
  "fst (splitView nav) = nav"
  by (simp add: splitView_def)

text \<open>
  C9. In every state reached from the freshly constructed navigator by any call
  sequence with arbitrary integer arguments, being at Picker implies that the app index
  is even: \<open>m_activeAppIndex % 2 == 0\<close> under the truncating remainder.
\<close>

theorem C9_picker_app_index_even:
  assumes "m_currentLevel (run cs SpatialNavigator_ctor) = LEVEL_3A_PICKER"
  shows "c_rem (m_activeAppIndex (run cs SpatialNavigator_ctor)) 2 = 0 \<and>
         even (sint (m_activeAppIndex (run cs SpatialNavigator_ctor)))"
proof -
  have "picker_app_even (run cs SpatialNavigator_ctor)"
    by (rule picker_app_even_run) (rule picker_app_even_ctor)
  with assms show ?thesis
    by (simp add: picker_app_even_def c_rem_2_eq_0_iff)
qed

theorem C9_picker_app_index_even_witness:
  "m_currentLevel (run [ZoomIn (- 1), ZoomIn (- 6), ZoomOut] SpatialNavigator_ctor)
     = LEVEL_3A_PICKER \<and>
   m_activeAppIndex (run [ZoomIn (- 1), ZoomIn (- 6), ZoomOut] SpatialNavigator_ctor) = - 6 \<and>
   c_rem (- 6) 2 = 0"
proof -
  have run_eq: "run [ZoomIn (- 1), ZoomIn (- 6), ZoomOut] SpatialNavigator_ctor =
      \<lparr> m_currentLevel = LEVEL_3A_PICKER, m_activeSectorIndex = - 1,
        m_activeAppIndex = - 6, m_activeWindowIndex = - 1 \<rparr>"
    by (simp add: SpatialNavigator_ctor_def fst_zoomIn fst_zoomOut c_rem_2_eq_0_iff)
  then have l: "m_currentLevel (run [ZoomIn (- 1), ZoomIn (- 6), ZoomOut] SpatialNavigator_ctor)
      = LEVEL_3A_PICKER"
    by simp
  from C9_picker_app_index_even [OF l] l show ?thesis
    by (simp add: run_eq del: run.simps)
qed

text \<open>
  C10. With the levels ordered by depth Root < Sector < Picker < Focus, \<open>zoomIn\<close>
  never lowers the depth of the level and \<open>zoomOut\<close> never raises it, in every state
  and for every argument. Each operation moves in its own direction or stays at its
  boundary: \<open>zoomIn\<close> raises the depth strictly at every level but Focus, where the
  level stays Focus, and \<open>zoomOut\<close> lowers it strictly at every level but Root, where
  the level stays Root.
\<close>

theorem C10_zoom_monotone:
  "depth (m_currentLevel nav) \<le> depth (m_currentLevel (fst (zoomIn x nav))) \<and>
   depth (m_currentLevel (fst (zoomOut nav))) \<le> depth (m_currentLevel nav) \<and>
   (m_currentLevel nav \<noteq> LEVEL_3_FOCUS \<longrightarrow>
      depth (m_currentLevel nav) < depth (m_currentLevel (fst (zoomIn x nav)))) \<and>
   (m_currentLevel nav = LEVEL_3_FOCUS \<longrightarrow>
      m_currentLevel (fst (zoomIn x nav)) = LEVEL_3_FOCUS) \<and>
   (m_currentLevel nav \<noteq> LEVEL_1_ROOT \<longrightarrow>
      depth (m_currentLevel (fst (zoomOut nav))) < depth (m_currentLevel nav)) \<and>
   (m_currentLevel nav = LEVEL_1_ROOT \<longrightarrow>
      m_currentLevel (fst (zoomOut nav)) = LEVEL_1_ROOT)"
  by (cases "m_currentLevel nav") (simp_all add: fst_zoomIn fst_zoomOut)

theorem C10_zoom_monotone_witness:
  "m_currentLevel SpatialNavigator_ctor = LEVEL_1_ROOT \<and>
   m_currentLevel SpatialNavigator_ctor \<noteq> LEVEL_3_FOCUS \<and>
   depth (m_currentLevel SpatialNavigator_ctor)
     < depth (m_currentLevel (fst (zoomIn 2 SpatialNavigator_ctor))) \<and>
   m_currentLevel (fst (zoomOut SpatialNavigator_ctor)) = LEVEL_1_ROOT \<and>
   m_currentLevel \<lparr> m_currentLevel = LEVEL_3_FOCUS, m_activeSectorIndex = 0,
       m_activeAppIndex = 2, m_activeWindowIndex = - 1 \<rparr> = LEVEL_3_FOCUS \<and>
   m_currentLevel \<lparr> m_currentLevel = LEVEL_3_FOCUS, m_activeSectorIndex = 0,
       m_activeAppIndex = 2, m_activeWindowIndex = - 1 \<rparr> \<noteq> LEVEL_1_ROOT \<and>
   m_currentLevel (fst (zoomIn 2 \<lparr> m_currentLevel = LEVEL_3_FOCUS, m_activeSectorIndex = 0,
       m_activeAppIndex = 2, m_activeWindowIndex = - 1 \<rparr>)) = LEVEL_3_FOCUS \<and>
   depth (m_currentLevel (fst (zoomOut \<lparr> m_currentLevel = LEVEL_3_FOCUS,
       m_activeSectorIndex = 0, m_activeAppIndex = 2, m_activeWindowIndex = - 1 \<rparr>)))
     < depth LEVEL_3_FOCUS"
proof -
  let ?f = "\<lparr> m_currentLevel = LEVEL_3_FOCUS, m_activeSectorIndex = 0,
       m_activeAppIndex = 2, m_activeWindowIndex = - 1 \<rparr> :: SpatialNavigator"
  have r: "m_currentLevel SpatialNavigator_ctor = LEVEL_1_ROOT"
    by (simp add: SpatialNavigator_ctor_def)
  have f: "m_currentLevel ?f = LEVEL_3_FOCUS"
    by simp
  from C10_zoom_monotone [of SpatialNavigator_ctor 2] r C10_zoom_monotone [of ?f 2] f
  show ?thesis
    by simp
qed

end
